theory Spec2Isabelle
  imports Main "HOL-Library.Signed_Division" "HOL-Library.Multiset"
begin

section \<open>Data model\<close>

text \<open>
  The join package of elastic-etcd (\<^verbatim>\<open>join/join.go\<close>, \<^verbatim>\<open>join/add.go\<close>) decides how a
  node enters an etcd cluster. Go errors and panics are values of \<open>error\<close>; a function
  returning \<^verbatim>\<open>(T, error)\<close> returns \<open>error + T\<close>.
\<close>

datatype error =
    External string
      \<comment> \<open>an error handed back by the etcd client, the discovery client or the node parser\<close>
  | NoDeadMember
      \<comment> \<open>\<^verbatim>\<open>errors.New("did not find any dead member")\<close>\<close>
  | ClusterFullNoDead
      \<comment> \<open>\<^verbatim>\<open>errors.New("full cluster and no dead member")\<close>\<close>
  | QuorumAtRisk nat nat nat
      \<comment> \<open>\<^verbatim>\<open>"cannot add another member temporarily to the %d member cluster (with %d members up)
          because we put the future quorum %d at risk"\<close>\<close>
  | ClusterDown
      \<comment> \<open>\<^verbatim>\<open>errors.New("Cluster is down. A new node cannot join now.")\<close>\<close>
  | SizeUnavailable error
      \<comment> \<open>\<^verbatim>\<open>"cannot get discovery url cluster size: %v"\<close>\<close>
  | JoinFailed error
      \<comment> \<open>\<^verbatim>\<open>"unable to add node %q with peer urls %q to the cluster: %v"\<close>\<close>
  | Panic string
      \<comment> \<open>a run-time panic of the Go program (nil dereference, index out of range)\<close>

text \<open>\<^verbatim>\<open>type Strategy string\<close>: any string is a strategy; four of them are named.\<close>

type_synonym Strategy = string

definition PreparedStrategy :: Strategy where "PreparedStrategy = ''prepared''"
definition PruneStrategy :: Strategy where "PruneStrategy = ''prune''"
definition ReplaceStrategy :: Strategy where "ReplaceStrategy = ''replace''"
definition AddStrategy :: Strategy where "AddStrategy = ''add''"

text \<open>\<^verbatim>\<open>maxInt = int(^uint(0) >> 1)\<close> on a 64-bit platform.\<close>

definition maxInt :: int where "maxInt = 2 ^ 63 - 1"

text \<open>\<^verbatim>\<open>EtcdConfig\<close>, the result of the join algorithm. A nil slice and an empty string are
  the zero values \<open>[]\<close>.\<close>

record EtcdConfig =
  InitialCluster :: "string list"
  InitialClusterState :: string
  AdvertisePeerURLs :: string
  Discovery :: string
  NodeName :: string  \<comment> \<open>field \<^verbatim>\<open>Name\<close> of \<^verbatim>\<open>EtcdConfig\<close>\<close>

text \<open>\<^verbatim>\<open>client.Member\<close> of the etcd client. \<^verbatim>\<open>discovery.Machine\<close> (\<^verbatim>\<open>node.DiscoveryNode\<close> in
  \<^verbatim>\<open>add.go\<close>) embeds a \<^verbatim>\<open>client.Member\<close> and adds no field that the join code reads.\<close>

record member =
  ID :: string
  Name :: string
  PeerURLs :: "string list"
  ClientURLs :: "string list"

type_synonym machine = member

text \<open>A node of a discovery response: \<^verbatim>\<open>Key\<close>, \<^verbatim>\<open>Value *string\<close> and the children \<^verbatim>\<open>Nodes\<close>.\<close>

datatype dnode = DNode (Key: string) (Value: "string option") (Nodes: "dnode list")

subsection \<open>The environment\<close>

text \<open>
  Everything outside the package is a parameter: the state of the network and of the
  cluster is a value of an arbitrary type \<open>'w\<close>, probes read it, and the calls of the
  members API transform it. \<open>mapi_List\<close>, \<open>mapi_Add\<close> and \<open>mapi_Remove\<close> take the endpoints
  the client was built with.
\<close>

record 'w env =
  http_get_ok :: "'w \<Rightarrow> string \<Rightarrow> bool"
    \<comment> \<open>\<^verbatim>\<open>ctxhttp.Get\<close> returned no error and status 200\<close>
  client_New :: "string list \<Rightarrow> error option"
    \<comment> \<open>the error of \<^verbatim>\<open>client.New\<close> for a list of endpoints, if any\<close>
  mapi_Leader :: "'w \<Rightarrow> string list \<Rightarrow> error + member option"
  mapi_List :: "string list \<Rightarrow> 'w \<Rightarrow> (error + member list) \<times> 'w"
  mapi_Add :: "string list \<Rightarrow> string \<Rightarrow> 'w \<Rightarrow> error option \<times> 'w"
  mapi_Remove :: "string list \<Rightarrow> string \<Rightarrow> 'w \<Rightarrow> error option \<times> 'w"
  discovery_Value :: "'w \<Rightarrow> string \<Rightarrow> string \<Rightarrow> error + dnode"
  NewDiscoveryNode :: "string \<Rightarrow> int \<Rightarrow> error + machine"
  ParseInt16 :: "string \<Rightarrow> int"
    \<comment> \<open>the value of \<^verbatim>\<open>strconv.ParseInt(s, 10, 16)\<close>, its error being dropped by the caller\<close>

text \<open>The calls issued through the members-API client of the adder (\<^verbatim>\<open>ma.mapi\<close>: \<^verbatim>\<open>List\<close>,
  \<^verbatim>\<open>Add\<close>, \<^verbatim>\<open>Remove\<close>) are recorded, in order, beside the world. The \<^verbatim>\<open>Leader\<close> request that
  \<^verbatim>\<open>active\<close> sends through a client of its own is a probe: it reads the world (\<open>mapi_Leader\<close>)
  and is not recorded.\<close>

datatype call = ListCall | AddCall string | RemoveCall string

record 'w state =
  world :: 'w
  calls :: "call list"

fun is_mutation :: "call \<Rightarrow> bool" where
  "is_mutation ListCall = False"
| "is_mutation (AddCall u) = True"
| "is_mutation (RemoveCall i) = True"

fun is_remove :: "call \<Rightarrow> bool" where
  "is_remove (RemoveCall i) = True"
| "is_remove c = False"

fun is_add :: "call \<Rightarrow> bool" where
  "is_add (AddCall u) = True"
| "is_add c = False"

record MemberAdder =
  mapi :: "string list"  \<comment> \<open>the endpoints of the members-API client\<close>
  activeNodes :: "machine list"
  strategy :: Strategy
  clientPort :: int
  targetSize :: int

definition List_call ::
  "'w env \<Rightarrow> MemberAdder \<Rightarrow> 'w state \<Rightarrow> (error + member list) \<times> 'w state" where
  "List_call E ma s =
     (case mapi_List E (mapi ma) (world s) of
        (r, w') \<Rightarrow> (r, \<lparr>world = w', calls = calls s @ [ListCall]\<rparr>))"

definition Add_call ::
  "'w env \<Rightarrow> MemberAdder \<Rightarrow> string \<Rightarrow> 'w state \<Rightarrow> error option \<times> 'w state" where
  "Add_call E ma u s =
     (case mapi_Add E (mapi ma) u (world s) of
        (r, w') \<Rightarrow> (r, \<lparr>world = w', calls = calls s @ [AddCall u]\<rparr>))"

definition Remove_call ::
  "'w env \<Rightarrow> MemberAdder \<Rightarrow> string \<Rightarrow> 'w state \<Rightarrow> error option \<times> 'w state" where
  "Remove_call E ma i s =
     (case mapi_Remove E (mapi ma) i (world s) of
        (r, w') \<Rightarrow> (r, \<lparr>world = w', calls = calls s @ [RemoveCall i]\<rparr>))"

section \<open>Health probes (\<^verbatim>\<open>join.go\<close>)\<close>

text \<open>\<^verbatim>\<open>rafthttp.ProbingPrefix\<close> of etcd.\<close>

definition ProbingPrefix :: string where "ProbingPrefix = ''/raft/probing''"

text \<open>\<^verbatim>\<open>alive\<close>: true at the first peer URL whose probe answers 200.\<close>

fun alive_urls :: "'w env \<Rightarrow> 'w \<Rightarrow> string list \<Rightarrow> bool" where
  "alive_urls E w [] = False"
| "alive_urls E w (u # us) =
     (if http_get_ok E w (u @ ProbingPrefix) then True else alive_urls E w us)"

definition alive :: "'w env \<Rightarrow> 'w \<Rightarrow> member \<Rightarrow> bool" where
  "alive E w m = alive_urls E w (PeerURLs m)"

text \<open>\<^verbatim>\<open>active\<close>: \<^verbatim>\<open>(false, err)\<close> is \<open>Inl err\<close>, \<^verbatim>\<open>(leader != nil, nil)\<close> is \<open>Inr\<close>.\<close>

definition active :: "'w env \<Rightarrow> 'w \<Rightarrow> member \<Rightarrow> error + bool" where
  "active E w m =
     (case client_New E (ClientURLs m) of
        Some err \<Rightarrow> Inl err
      | None \<Rightarrow>
          (case mapi_Leader E w (ClientURLs m) of
             Inl err \<Rightarrow> Inl err
           | Inr leader \<Rightarrow> Inr (leader \<noteq> None)))"

text \<open>Alive and active: what \<^verbatim>\<open>protectQuorum\<close> and the heuristic count as healthy.\<close>

definition healthy :: "'w env \<Rightarrow> 'w \<Rightarrow> member \<Rightarrow> bool" where
  "healthy E w m = (if alive E w m then active E w m = Inr True else False)"

section \<open>The member adder (\<^verbatim>\<open>add.go\<close>)\<close>

text \<open>\<^verbatim>\<open>findUnstartedMember\<close>: the first member with an empty name all of whose peer URLs are
  among \<open>urls\<close>.\<close>

fun findUnstartedMember :: "member list \<Rightarrow> string list \<Rightarrow> member option" where
  "findUnstartedMember [] urls = None"
| "findUnstartedMember (m # members) urls =
     (if Name m \<noteq> '''' then findUnstartedMember members urls
      else if list_all (\<lambda>u. List.member urls u) (PeerURLs m) then Some m
      else findUnstartedMember members urls)"

text \<open>The inner loop of \<^verbatim>\<open>removeDeadMember\<close> over the peer URLs of member \<open>m\<close>: \<open>False\<close> is
  \<^verbatim>\<open>continue searchForDead\<close>, \<open>True\<close> is falling out of the loop.\<close>

fun no_url_active :: "'w env \<Rightarrow> 'w \<Rightarrow> int \<Rightarrow> string \<Rightarrow> string list \<Rightarrow> bool" where
  "no_url_active E w port nm [] = True"
| "no_url_active E w port nm (u # us) =
     (case NewDiscoveryNode E (nm @ ''='' @ u) port of
        Inl err \<Rightarrow> False
      | Inr n \<Rightarrow>
          (if alive E w n then
             (case active E w n of
                Inl err \<Rightarrow> False
              | Inr isActive \<Rightarrow> (if isActive then False else no_url_active E w port nm us))
           else no_url_active E w port nm us))"

text \<open>The outer loop: the member selected, if any.\<close>

fun searchForDead :: "'w env \<Rightarrow> 'w \<Rightarrow> int \<Rightarrow> member list \<Rightarrow> member option" where
  "searchForDead E w port [] = None"
| "searchForDead E w port (m # members) =
     (if length (PeerURLs m) = 0 then Some m
      else if no_url_active E w port (Name m) (PeerURLs m) then Some m
      else searchForDead E w port members)"

text \<open>\<^verbatim>\<open>removeDeadMember\<close> returns \<^verbatim>\<open>(*client.Member, error)\<close>: \<open>Inr None\<close> stands for
  \<^verbatim>\<open>(nil, nil)\<close>.\<close>

definition removeDeadMember ::
  "'w env \<Rightarrow> MemberAdder \<Rightarrow> member list \<Rightarrow> 'w state \<Rightarrow> (error + member option) \<times> 'w state"
  where
  "removeDeadMember E ma members s =
     (case searchForDead E (world s) (clientPort ma) members of
        None \<Rightarrow> (Inl NoDeadMember, s)
      | Some selected \<Rightarrow>
          (case Remove_call E ma (ID selected) s of
             (Some err, s') \<Rightarrow> (Inl err, s')
           | (None, s') \<Rightarrow> (Inr (Some selected), s')))"

text \<open>The counting loop of \<^verbatim>\<open>protectQuorum\<close> and its verdict.\<close>

definition startedMembers :: "member list \<Rightarrow> nat" where
  "startedMembers ms = length (filter (\<lambda>m. Name m \<noteq> '''') ms)"

definition healthyMembers :: "'w env \<Rightarrow> 'w \<Rightarrow> member list \<Rightarrow> nat" where
  "healthyMembers E w ms = length (filter (healthy E w) ms)"

definition futureQuorum :: "member list \<Rightarrow> nat" where
  "futureQuorum ms = (startedMembers ms + 1) div 2 + 1"

definition protectQuorum ::
  "'w env \<Rightarrow> MemberAdder \<Rightarrow> 'w state \<Rightarrow> error option \<times> 'w state" where
  "protectQuorum E ma s =
     (case List_call E ma s of
        (Inl err, s') \<Rightarrow> (Some err, s')
      | (Inr ms, s') \<Rightarrow>
          (if healthyMembers E (world s') ms < futureQuorum ms
           then (Some (QuorumAtRisk (startedMembers ms) (healthyMembers E (world s') ms)
                         (futureQuorum ms)), s')
           else (None, s')))"

text \<open>The \<^verbatim>\<open>for\<close> loop of the prune strategy. It runs on the member list \<open>ms\<close> that \<^verbatim>\<open>Add\<close>
  fetched before the loop and has no bound of its own; \<open>None\<close> is a loop that never ends.\<close>

partial_function (option) prune_loop ::
  "'w env \<Rightarrow> MemberAdder \<Rightarrow> member list \<Rightarrow> 'w state \<Rightarrow> 'w state option" where
  "prune_loop E ma ms s =
     (case removeDeadMember E ma ms s of
        (Inl err, s') \<Rightarrow> Some s'
      | (Inr None, s') \<Rightarrow> Some s'
      | (Inr (Some removed), s') \<Rightarrow> prune_loop E ma ms s')"

text \<open>The \<^verbatim>\<open>switch ma.strategy\<close> of \<^verbatim>\<open>Add\<close>: \<open>Some (Some err, s)\<close> is the early return of an
  error, \<open>Some (None, s)\<close> goes on to the quorum guard.\<close>

definition strategy_switch ::
  "'w env \<Rightarrow> MemberAdder \<Rightarrow> member list \<Rightarrow> 'w state \<Rightarrow> (error option \<times> 'w state) option"
  where
  "strategy_switch E ma ms s =
     (if strategy ma = ReplaceStrategy then
        (case removeDeadMember E ma ms s of
           (Inl err, s') \<Rightarrow> Some (Some err, s')
         | (Inr None, s') \<Rightarrow>
             (if int (length ms) \<ge> targetSize ma then Some (Some ClusterFullNoDead, s')
              else Some (None, s'))
         | (Inr (Some removed), s') \<Rightarrow> Some (None, s'))
      else if strategy ma = PruneStrategy then
        (case prune_loop E ma ms s of
           None \<Rightarrow> None
         | Some s' \<Rightarrow> Some (None, s'))
      else Some (None, s))"

text \<open>The tail of \<^verbatim>\<open>Add\<close> after the switch: quorum guard, then the add of \<^verbatim>\<open>urls[0]\<close>.\<close>

definition guard_and_add ::
  "'w env \<Rightarrow> MemberAdder \<Rightarrow> string list \<Rightarrow> 'w state \<Rightarrow> (error + string list) \<times> 'w state"
  where
  "guard_and_add E ma urls s =
     (case protectQuorum E ma s of
        (Some err, s') \<Rightarrow> (Inl err, s')
      | (None, s') \<Rightarrow>
          (case urls of
             [] \<Rightarrow> (Inl (Panic ''index out of range''), s')
           | u0 # rest \<Rightarrow>
               (case Add_call E ma u0 s' of
                  (Some err, s'') \<Rightarrow> (Inl err, s'')
                | (None, s'') \<Rightarrow> (Inr [u0], s''))))"

text \<open>\<^verbatim>\<open>MemberAdder.Add\<close>. The result is \<open>None\<close> when the prune loop never ends.\<close>

definition Add ::
  "'w env \<Rightarrow> MemberAdder \<Rightarrow> string \<Rightarrow> string list \<Rightarrow> 'w state
     \<Rightarrow> ((error + string list) \<times> 'w state) option" where
  "Add E ma name urls s =
     (case List_call E ma s of
        (Inl err, s1) \<Rightarrow> Some (Inl err, s1)
      | (Inr ms, s1) \<Rightarrow>
          (case findUnstartedMember ms urls of
             Some unstarted \<Rightarrow>
               (case protectQuorum E ma s1 of
                  (Some err, s2) \<Rightarrow> Some (Inl err, s2)
                | (None, s2) \<Rightarrow> Some (Inr (PeerURLs unstarted), s2))
           | None \<Rightarrow>
               (case strategy_switch E ma ms s1 of
                  None \<Rightarrow> None
                | Some (Some err, s2) \<Rightarrow> Some (Inl err, s2)
                | Some (None, s2) \<Rightarrow> Some (guard_and_add E ma urls s2))))"

section \<open>The join algorithm (\<^verbatim>\<open>join.go\<close>)\<close>

text \<open>\<^verbatim>\<open>clusterExistingHeuristic\<close> probes every node in a goroutine of its own and appends the
  healthy ones to \<^verbatim>\<open>activeNodes\<close> under a lock, in the order in which the goroutines get
  there. That order is the parameter \<open>sched\<close>, a list of indices into \<open>nodes\<close>.\<close>

definition collect_active :: "'w env \<Rightarrow> 'w \<Rightarrow> nat list \<Rightarrow> machine list \<Rightarrow> machine list" where
  "collect_active E w sched nodes =
     map (\<lambda>i. nodes ! i) (filter (\<lambda>i. i < length nodes \<and> healthy E w (nodes ! i)) sched)"

text \<open>The slice returned is \<open>None\<close> for \<^verbatim>\<open>nil\<close>; the error returned is always \<^verbatim>\<open>nil\<close>. Go's
  \<^verbatim>\<open>/\<close> on \<^verbatim>\<open>int\<close> truncates towards zero (\<open>sdiv\<close>).\<close>

definition clusterExistingHeuristic ::
  "'w env \<Rightarrow> 'w \<Rightarrow> nat list \<Rightarrow> int \<Rightarrow> machine list option \<Rightarrow> machine list option" where
  "clusterExistingHeuristic E w sched csize nodes =
     (let quorum = csize sdiv 2 + 1 in
      case nodes of
        None \<Rightarrow> None
      | Some ns \<Rightarrow>
          (let active_nodes = collect_active E w sched ns in
           if int (length ns) < quorum then None
           else if int (length ns) = csize then Some active_nodes
           else if length active_nodes > 0 then Some active_nodes
           else None))"

text \<open>Modelled from the spec: \<^verbatim>\<open>NamedPeerURLs\<close> of \<^verbatim>\<open>discovery.Machine\<close>, which is not among the
  sources; it "renders each peer URL as name=peer".\<close>

definition NamedPeerURLs :: "machine \<Rightarrow> string list" where
  "NamedPeerURLs n = map (\<lambda>u. Name n @ ''='' @ u) (PeerURLs n)"

text \<open>\<^verbatim>\<open>strings.Split(s, ",")\<close>.\<close>

fun Split_comma :: "string \<Rightarrow> string list" where
  "Split_comma [] = [[]]"
| "Split_comma (c # cs) =
     (if c = CHR '','' then [] # Split_comma cs
      else (case Split_comma cs of
              [] \<Rightarrow> [[c]]
            | x # xs \<Rightarrow> (c # x) # xs))"

text \<open>The first loop of \<^verbatim>\<open>Join\<close> over the children of the discovery response. A child
  without a value is logged, and then its value is dereferenced all the same.\<close>

fun roster :: "'w env \<Rightarrow> int \<Rightarrow> dnode list \<Rightarrow> error + machine list" where
  "roster E port [] = Inr []"
| "roster E port (nn # rest) =
     (case Value nn of
        None \<Rightarrow> Inl (Panic ''nil pointer dereference'')
      | Some v \<Rightarrow>
          (case NewDiscoveryNode E v port of
             Inl err \<Rightarrow> roster E port rest
           | Inr n \<Rightarrow>
               (case roster E port rest of
                  Inl err \<Rightarrow> Inl err
                | Inr nodes \<Rightarrow> Inr (n # nodes))))"

text \<open>The target size: read from the discovery service when negative, unlimited when 0.\<close>

definition target_size :: "'w env \<Rightarrow> 'w \<Rightarrow> string \<Rightarrow> int \<Rightarrow> error + int" where
  "target_size E w discoveryURL clusterSize =
     (if clusterSize < 0 then
        (case discovery_Value E w discoveryURL ''/_config/size'' of
           Inl err \<Rightarrow> Inl (SizeUnavailable err)
         | Inr res \<Rightarrow>
             (case Value res of
                None \<Rightarrow> Inl (Panic ''nil pointer dereference'')
              | Some v \<Rightarrow> Inr (ParseInt16 E v)))
      else if clusterSize = 0 then Inr maxInt
      else Inr clusterSize)"

text \<open>\<^verbatim>\<open>NewMemberAdder\<close>.\<close>

definition NewMemberAdder ::
  "'w env \<Rightarrow> machine list \<Rightarrow> Strategy \<Rightarrow> int \<Rightarrow> int \<Rightarrow> error + MemberAdder" where
  "NewMemberAdder E active_nodes strat port csize =
     (let activeUrls = concat (map ClientURLs active_nodes) in
      case client_New E activeUrls of
        Some err \<Rightarrow> Inl err
      | None \<Rightarrow>
          Inr \<lparr>mapi = activeUrls, activeNodes = active_nodes, strategy = strat,
               clientPort = port, targetSize = csize\<rparr>)"

text \<open>The configuration \<^verbatim>\<open>Join\<close> emits for an existing cluster.\<close>

definition existing_config :: "string list \<Rightarrow> string \<Rightarrow> string \<Rightarrow> EtcdConfig" where
  "existing_config initialCluster initialAdvertisePeerURLs name =
     \<lparr>InitialCluster = initialCluster,
      InitialClusterState = ''existing'',
      AdvertisePeerURLs = initialAdvertisePeerURLs,
      Discovery = '''',
      NodeName = name\<rparr>"

text \<open>The branch of \<^verbatim>\<open>Join\<close> for a running cluster (\<^verbatim>\<open>activeNodes\<close> not nil and not empty).\<close>

definition join_running ::
  "'w env \<Rightarrow> machine list \<Rightarrow> string \<Rightarrow> string \<Rightarrow> bool \<Rightarrow> int \<Rightarrow> int \<Rightarrow> Strategy
     \<Rightarrow> 'w state \<Rightarrow> ((error + EtcdConfig) \<times> 'w state) option" where
  "join_running E active_nodes name initialAdvertisePeerURLs fresh port csize strat s =
     (let activeNamedURLs = concat (map NamedPeerURLs active_nodes);
          advertisedURLs = Split_comma initialAdvertisePeerURLs;
          advertisedNamedURLs = map (\<lambda>u. name @ ''='' @ u) advertisedURLs
      in case advertisedNamedURLs of
           [] \<Rightarrow> Some (Inl (Panic ''index out of range''), s)
         | first # others \<Rightarrow>
             (if strat \<noteq> PreparedStrategy \<and> fresh then
                (case NewMemberAdder E active_nodes strat port csize of
                   Inl err \<Rightarrow> Some (Inl err, s)
                 | Inr adder \<Rightarrow>
                     (case Add E adder name advertisedURLs s of
                        None \<Rightarrow> None
                      | Some (Inl err, s') \<Rightarrow> Some (Inl (JoinFailed err), s')
                      | Some (Inr initialURLs, s') \<Rightarrow>
                          Some (Inr (existing_config
                                  (map (\<lambda>u. name @ ''='' @ u) initialURLs @ activeNamedURLs)
                                  initialAdvertisePeerURLs name), s')))
              else Some (Inr (existing_config ([first] @ activeNamedURLs)
                                initialAdvertisePeerURLs name), s)))"

text \<open>\<^verbatim>\<open>Join\<close>. The result is \<open>None\<close> when the prune loop of the adder never ends.\<close>

definition Join ::
  "'w env \<Rightarrow> nat list \<Rightarrow> string \<Rightarrow> string \<Rightarrow> string \<Rightarrow> bool \<Rightarrow> int \<Rightarrow> int \<Rightarrow> Strategy
     \<Rightarrow> 'w state \<Rightarrow> ((error + EtcdConfig) \<times> 'w state) option" where
  "Join E sched discoveryURL name initialAdvertisePeerURLs fresh port clusterSize strat s =
     (case discovery_Value E (world s) discoveryURL ''/'' of
        Inl err \<Rightarrow> Some (Inl err, s)
      | Inr res \<Rightarrow>
          (case roster E port (Nodes res) of
             Inl err \<Rightarrow> Some (Inl err, s)
           | Inr nodes \<Rightarrow>
               (case target_size E (world s) discoveryURL clusterSize of
                  Inl err \<Rightarrow> Some (Inl err, s)
                | Inr tsize \<Rightarrow>
                    (case clusterExistingHeuristic E (world s) sched tsize (Some nodes) of
                       Some active_nodes \<Rightarrow>
                         (if length active_nodes = 0 then
                            (if fresh then Some (Inl ClusterDown, s)
                             else Some (Inr (existing_config [] initialAdvertisePeerURLs name), s))
                          else join_running E active_nodes name initialAdvertisePeerURLs
                                 fresh port tsize strat s)
                     | None \<Rightarrow>
                         Some (Inr \<lparr>InitialCluster = [],
                                    InitialClusterState = ''new'',
                                    AdvertisePeerURLs = initialAdvertisePeerURLs,
                                    Discovery = discoveryURL,
                                    NodeName = name\<rparr>, s)))))"

section \<open>A simulated cluster\<close>

text \<open>
  A concrete environment on which the definitions can be run. The world is the member
  list of the cluster. A peer URL answers the probe when it is in \<open>up\<close>, and a client
  reaches a leader when one of its endpoints is in \<open>up\<close>. Removing an unknown member ID is
  an error. A token \<open>name=url\<close> with a name parses to a node whose client
  URL is its peer URL followed by \<open>:client\<close>.
\<close>

definition sim_parse :: "string \<Rightarrow> int \<Rightarrow> error + machine" where
  "sim_parse tok port =
     (let nm = takeWhile (\<lambda>c. c \<noteq> CHR ''='') tok;
          rest = dropWhile (\<lambda>c. c \<noteq> CHR ''='') tok
      in if nm = [] then Inl (External ''invalid token'')
         else (case rest of
                 [] \<Rightarrow> Inl (External ''invalid token'')
               | eq # url \<Rightarrow>
                   Inr \<lparr>ID = '''', Name = nm, PeerURLs = [url],
                        ClientURLs = [url @ '':client'']\<rparr>))"

definition sim_remove :: "string \<Rightarrow> member list \<Rightarrow> error option \<times> member list" where
  "sim_remove i w =
     (if List.member (map ID w) i then (None, filter (\<lambda>m. ID m \<noteq> i) w)
      else (Some (External ''member not found''), w))"

definition sim_env :: "string list \<Rightarrow> dnode list \<Rightarrow> string \<Rightarrow> (member list) env" where
  "sim_env up children size_value =
     \<lparr>http_get_ok = (\<lambda>w u. List.member (map (\<lambda>p. p @ ProbingPrefix) up) u),
      client_New = (\<lambda>eps. if eps = [] then Some (External ''no endpoints'') else None),
      mapi_Leader = (\<lambda>w eps.
         if list_ex (\<lambda>e. List.member (map (\<lambda>p. p @ '':client'') up) e) eps
         then Inr (Some \<lparr>ID = ''leader'', Name = ''leader'', PeerURLs = [], ClientURLs = []\<rparr>)
         else Inl (External ''no leader'')),
      mapi_List = (\<lambda>eps w. (Inr w, w)),
      mapi_Add = (\<lambda>eps u w.
         (None, w @ [\<lparr>ID = ''new'', Name = '''', PeerURLs = [u], ClientURLs = []\<rparr>])),
      mapi_Remove = (\<lambda>eps i w. sim_remove i w),
      discovery_Value = (\<lambda>w url key.
         if key = ''/'' then Inr (DNode ''/'' None children)
         else Inr (DNode key (Some size_value) [])),
      NewDiscoveryNode = sim_parse,
      ParseInt16 = (\<lambda>v. if v = ''3'' then 3 else 0)\<rparr>"

text \<open>A member of the simulated cluster with one peer URL.\<close>

definition mem :: "string \<Rightarrow> string \<Rightarrow> string \<Rightarrow> member" where
  "mem i nm url = \<lparr>ID = i, Name = nm, PeerURLs = [url], ClientURLs = [url @ '':client'']\<rparr>"

definition start :: "member list \<Rightarrow> (member list) state" where
  "start ms = \<lparr>world = ms, calls = []\<rparr>"

text \<open>The cluster members and discovery entries of the scenarios below. Nodes \<open>a\<close> and \<open>b\<close>
  are up in \<open>net_ab\<close>; only \<open>a\<close> is up in \<open>net_a\<close>; nothing is up in \<open>net_down\<close>.\<close>

definition member_a :: member where "member_a = mem ''1'' ''a'' ''http://a:2380''"
definition member_b :: member where "member_b = mem ''2'' ''b'' ''http://b:2380''"
definition member_c :: member where "member_c = mem ''3'' ''c'' ''http://c:2380''"

definition slot_n :: member where
  "slot_n = \<lparr>ID = ''4'', Name = '''', PeerURLs = [''http://n:2380''], ClientURLs = []\<rparr>"

definition slot_empty :: member where
  "slot_empty = \<lparr>ID = ''5'', Name = '''', PeerURLs = [], ClientURLs = []\<rparr>"

definition added_n :: member where
  "added_n = \<lparr>ID = ''new'', Name = '''', PeerURLs = [''http://n:2380''], ClientURLs = []\<rparr>"

definition node_a :: machine where
  "node_a = \<lparr>ID = '''', Name = ''a'', PeerURLs = [''http://a:2380''],
              ClientURLs = [''http://a:2380:client'']\<rparr>"

definition node_b :: machine where
  "node_b = \<lparr>ID = '''', Name = ''b'', PeerURLs = [''http://b:2380''],
              ClientURLs = [''http://b:2380:client'']\<rparr>"

definition roster_ab :: "dnode list" where
  "roster_ab = [DNode ''/a'' (Some ''a=http://a:2380'') [],
                DNode ''/b'' (Some ''b=http://b:2380'') []]"

definition roster_abc :: "dnode list" where
  "roster_abc = roster_ab @ [DNode ''/c'' (Some ''c=http://c:2380'') []]"

definition roster_nil :: "dnode list" where
  "roster_nil = [DNode ''/a'' (Some ''a=http://a:2380'') [], DNode ''/x'' None []]"

definition net_ab :: "dnode list \<Rightarrow> (member list) env" where
  "net_ab children = sim_env [''http://a:2380'', ''http://b:2380''] children ''3''"

definition net_a :: "dnode list \<Rightarrow> (member list) env" where
  "net_a children = sim_env [''http://a:2380''] children ''3''"

definition net_down :: "dnode list \<Rightarrow> (member list) env" where
  "net_down children = sim_env [] children ''3''"

definition adder :: "Strategy \<Rightarrow> MemberAdder" where
  "adder strat = \<lparr>mapi = [''http://a:2380:client''], activeNodes = [], strategy = strat,
                  clientPort = 2379, targetSize = 3\<rparr>"

definition joined_adder :: MemberAdder where
  "joined_adder = \<lparr>mapi = [''http://a:2380:client'', ''http://b:2380:client''],
                    activeNodes = [node_a, node_b], strategy = AddStrategy,
                    clientPort = 2379, targetSize = 3\<rparr>"

section \<open>Notions used to state the properties\<close>

text \<open>The state in which \<^verbatim>\<open>Add\<close> enters \<^verbatim>\<open>protectQuorum\<close>, if it gets there: \<open>Add\<close> cut off
  in front of its two calls of the guard.\<close>

definition guard_entry ::
  "'w env \<Rightarrow> MemberAdder \<Rightarrow> string list \<Rightarrow> 'w state \<Rightarrow> 'w state option" where
  "guard_entry E ma urls s =
     (case List_call E ma s of
        (Inl err, s1) \<Rightarrow> None
      | (Inr ms, s1) \<Rightarrow>
          (case findUnstartedMember ms urls of
             Some unstarted \<Rightarrow> Some s1
           | None \<Rightarrow>
               (case strategy_switch E ma ms s1 of
                  None \<Rightarrow> None
                | Some (Some err, s2) \<Rightarrow> None
                | Some (None, s2) \<Rightarrow> Some s2)))"

text \<open>The edge policy of the existence heuristic as the specification words it, as a cascade
  over the roster and the list of healthy nodes: nil or empty roster, absent; fewer than
  \<open>size/2 + 1\<close> nodes, absent; exactly \<open>size\<close> nodes, running; a healthy node, running;
  otherwise absent. The quotient is the mathematical one (\<open>div\<close>).\<close>

definition edge_policy ::
  "int \<Rightarrow> machine list option \<Rightarrow> machine list \<Rightarrow> machine list option" where
  "edge_policy csize nodes healthy_nodes =
     (case nodes of
        None \<Rightarrow> None
      | Some ns \<Rightarrow>
          if ns = [] then None
          else if int (length ns) < csize div 2 + 1 then None
          else if int (length ns) = csize then Some healthy_nodes
          else if healthy_nodes \<noteq> [] then Some healthy_nodes
          else None)"

declare prune_loop.simps [code]

section \<open>Auxiliary facts\<close>

lemmas sim_defs = net_ab_def net_a_def net_down_def sim_env_def sim_parse_def sim_remove_def
  mem_def start_def member_a_def member_b_def member_c_def slot_n_def slot_empty_def added_n_def
  node_a_def node_b_def roster_ab_def roster_abc_def roster_nil_def adder_def joined_adder_def
  ProbingPrefix_def

lemmas adder_defs = List_call_def Add_call_def Remove_call_def alive_def active_def healthy_def
  removeDeadMember_def startedMembers_def healthyMembers_def futureQuorum_def protectQuorum_def
  strategy_switch_def guard_and_add_def Add_def PreparedStrategy_def PruneStrategy_def
  ReplaceStrategy_def AddStrategy_def

lemmas join_defs = Join_def join_running_def target_size_def clusterExistingHeuristic_def
  collect_active_def NamedPeerURLs_def NewMemberAdder_def existing_config_def maxInt_def

subsection \<open>The calls a step issues\<close>

lemma List_call_calls: "List_call E ma s = (r, s') \<Longrightarrow> calls s' = calls s @ [ListCall]"
  by (auto simp: List_call_def split: prod.splits)

lemma Add_call_calls: "Add_call E ma u s = (r, s') \<Longrightarrow> calls s' = calls s @ [AddCall u]"
  by (auto simp: Add_call_def split: prod.splits)

lemma Remove_call_calls:
  "Remove_call E ma i s = (r, s') \<Longrightarrow> calls s' = calls s @ [RemoveCall i]"
  by (auto simp: Remove_call_def split: prod.splits)

lemma protectQuorum_calls:
  "protectQuorum E ma s = (r, s') \<Longrightarrow> calls s' = calls s @ [ListCall]"
  by (auto simp: protectQuorum_def split: prod.splits sum.splits if_splits
           dest: List_call_calls)

text \<open>\<^verbatim>\<open>removeDeadMember\<close> never returns \<^verbatim>\<open>(nil, nil)\<close>: without a dead member it returns an
  error.\<close>

lemma removeDeadMember_not_nil: "removeDeadMember E ma ms s \<noteq> (Inr None, s')"
  by (auto simp: removeDeadMember_def split: option.splits prod.splits)

lemma removeDeadMember_none_found:
  "searchForDead E (world s) (clientPort ma) ms = None \<Longrightarrow>
     removeDeadMember E ma ms s = (Inl NoDeadMember, s)"
  by (simp add: removeDeadMember_def)

lemma removeDeadMember_calls:
  "removeDeadMember E ma ms s = (r, s') \<Longrightarrow>
     calls s' = calls s \<or> (\<exists>i. calls s' = calls s @ [RemoveCall i])"
  by (auto simp: removeDeadMember_def split: option.splits prod.splits
           dest: Remove_call_calls)

lemma removeDeadMember_no_add:
  "removeDeadMember E ma ms s = (r, s') \<Longrightarrow>
     filter is_add (calls s') = filter is_add (calls s)"
  by (drule removeDeadMember_calls) auto

lemmas prune_loop_induct = prune_loop.raw_induct[rotated 1, consumes 1, case_names step]

lemma prune_loop_no_add:
  "prune_loop E ma ms s = Some s' \<Longrightarrow> filter is_add (calls s') = filter is_add (calls s)"
proof (induction rule: prune_loop_induct)
  case (step loop E ma ms s s')
  show ?case
  proof (cases "removeDeadMember E ma ms s")
    case (Pair r t)
    note na = removeDeadMember_no_add[OF Pair]
    show ?thesis
    proof (cases r)
      case (Inl err)
      with step(2) Pair na show ?thesis by simp
    next
      case (Inr removed)
      show ?thesis
      proof (cases removed)
        case None
        with step(2) Pair Inr na show ?thesis by simp
      next
        case (Some m)
        with step(2) Pair Inr have "loop E ma ms t = Some s'" by simp
        from step(1)[OF this] na show ?thesis by simp
      qed
    qed
  qed
qed

lemma strategy_switch_no_add:
  "strategy_switch E ma ms s = Some (r, s') \<Longrightarrow>
     filter is_add (calls s') = filter is_add (calls s)"
  by (auto simp: strategy_switch_def removeDeadMember_not_nil
           split: if_splits prod.splits sum.splits option.splits
           dest: removeDeadMember_no_add prune_loop_no_add)

lemma guard_entry_no_add:
  "guard_entry E ma urls s = Some g \<Longrightarrow> filter is_add (calls g) = filter is_add (calls s)"
  by (auto simp: guard_entry_def split: prod.splits sum.splits option.splits
           dest!: List_call_calls strategy_switch_no_add)

lemma guard_and_add_no_remove:
  "guard_and_add E ma urls s = (r, s') \<Longrightarrow>
     filter is_remove (calls s') = filter is_remove (calls s)"
  by (auto simp: guard_and_add_def split: prod.splits option.splits list.splits
           dest!: protectQuorum_calls Add_call_calls)

subsection \<open>The quorum guard\<close>

lemma guard_passes_iff:
  "(fst (protectQuorum E ma g) = None) =
     (case mapi_List E (mapi ma) (world g) of
        (Inl err, w') \<Rightarrow> False
      | (Inr ms, w') \<Rightarrow> (startedMembers ms + 1) div 2 + 1 \<le> healthyMembers E w' ms)"
  by (auto simp: protectQuorum_def List_call_def futureQuorum_def
           split: prod.splits sum.splits)

lemma guard_error:
  "mapi_List E (mapi ma) (world g) = (Inr ms, w') \<Longrightarrow>
   protectQuorum E ma g = (Some err, s3) \<Longrightarrow>
     err = QuorumAtRisk (startedMembers ms) (healthyMembers E w' ms)
             ((startedMembers ms + 1) div 2 + 1)"
  by (auto simp: protectQuorum_def List_call_def futureQuorum_def split: if_splits)

lemma Add_success_guard:
  "Add E ma name urls s = Some (Inr res, s') \<Longrightarrow>
     \<exists>g s2. guard_entry E ma urls s = Some g \<and> protectQuorum E ma g = (None, s2) \<and>
            (s' = s2 \<or> (\<exists>u. Add_call E ma u s2 = (None, s')))"
  by (auto simp: Add_def guard_entry_def guard_and_add_def
           split: prod.splits sum.splits option.splits list.splits)

lemma Add_guard_fails:
  "guard_entry E ma urls s = Some g \<Longrightarrow> protectQuorum E ma g = (Some err, s3) \<Longrightarrow>
     Add E ma name urls s = Some (Inl err, s3)"
  by (auto simp: Add_def guard_entry_def guard_and_add_def
           split: prod.splits sum.splits option.splits list.splits)

subsection \<open>Unstarted members\<close>

lemma findUnstartedMember_Some:
  "findUnstartedMember ms urls = Some u \<Longrightarrow>
     u \<in> set ms \<and> Name u = '''' \<and> set (PeerURLs u) \<subseteq> set urls"
  by (induction ms) (auto simp: list_all_iff split: if_splits)

lemma findUnstartedMember_exists:
  "m \<in> set ms \<Longrightarrow> Name m = '''' \<Longrightarrow> set (PeerURLs m) \<subseteq> set urls \<Longrightarrow>
     \<exists>u. findUnstartedMember ms urls = Some u"
  by (induction ms) (auto simp: list_all_iff)

lemma findUnstartedMember_first:
  "findUnstartedMember ms urls = Some u \<Longrightarrow>
     \<exists>pre post. ms = pre @ u # post \<and> findUnstartedMember pre urls = None"
proof (induction ms)
  case Nil
  then show ?case by simp
next
  case (Cons m ms)
  show ?case
  proof (cases "findUnstartedMember [m] urls")
    case None
    with Cons.prems have "findUnstartedMember ms urls = Some u"
      by (auto split: if_splits)
    from Cons.IH[OF this] obtain pre post
      where "ms = pre @ u # post" and "findUnstartedMember pre urls = None" by blast
    with None have "m # ms = (m # pre) @ u # post \<and> findUnstartedMember (m # pre) urls = None"
      by (auto split: if_splits)
    then show ?thesis by blast
  next
    case (Some v)
    with Cons.prems have "u = m" by (auto split: if_splits)
    then have "m # ms = [] @ u # ms \<and> findUnstartedMember [] urls = None" by simp
    then show ?thesis by blast
  qed
qed

lemma findUnstartedMember_append:
  "findUnstartedMember pre urls = None \<Longrightarrow>
     findUnstartedMember (pre @ post) urls = findUnstartedMember post urls"
  by (induction pre) (auto split: if_splits)

subsection \<open>The prepared strategy\<close>

lemma Join_prepared:
  "\<exists>r. Join E sched discoveryURL name adv fresh port clusterSize PreparedStrategy s
         = Some (r, s)"
  by (auto simp: Join_def join_running_def Let_def
           split: sum.splits option.splits list.splits)

lemma prepared_switch:
  "strategy ma = PreparedStrategy \<Longrightarrow> strategy_switch E ma ms s = Some (None, s)"
  by (simp add: strategy_switch_def PreparedStrategy_def ReplaceStrategy_def PruneStrategy_def)

lemma Add_prepared:
  assumes "strategy ma = PreparedStrategy"
  shows "\<exists>r s'. Add E ma name urls s = Some (r, s') \<and>
                 filter is_remove (calls s') = filter is_remove (calls s)"
proof (cases "List_call E ma s")
  case (Pair r s1)
  note c1 = List_call_calls[OF Pair]
  show ?thesis
  proof (cases r)
    case (Inl err)
    with Pair c1 show ?thesis by (simp add: Add_def)
  next
    case (Inr ms)
    show ?thesis
    proof (cases "findUnstartedMember ms urls")
      case None
      obtain r2 s2 where g: "guard_and_add E ma urls s1 = (r2, s2)"
        by (cases "guard_and_add E ma urls s1")
      from guard_and_add_no_remove[OF g] c1 Pair Inr None g
        prepared_switch[OF assms, of E ms s1]
      show ?thesis by (simp add: Add_def)
    next
      case (Some u)
      obtain r2 s2 where g: "protectQuorum E ma s1 = (r2, s2)"
        by (cases "protectQuorum E ma s1")
      from protectQuorum_calls[OF g] c1 Pair Inr Some g
      show ?thesis by (cases r2) (simp_all add: Add_def)
    qed
  qed
qed

subsection \<open>The existence heuristic\<close>

lemma nth_filter_upt:
  "map (\<lambda>i. xs ! i) (filter (\<lambda>i. i < length xs \<and> P (xs ! i)) [0..<length xs]) = filter P xs"
proof (induction xs rule: rev_induct)
  case Nil
  show ?case by simp
next
  case (snoc x xs)
  have a: "filter (\<lambda>i. i < Suc (length xs) \<and> P ((xs @ [x]) ! i)) [0..<length xs]
         = filter (\<lambda>i. i < length xs \<and> P (xs ! i)) [0..<length xs]"
    by (rule filter_cong) (auto simp: nth_append)
  have b: "map (\<lambda>i. (xs @ [x]) ! i) (filter (\<lambda>i. i < length xs \<and> P (xs ! i)) [0..<length xs])
         = map (\<lambda>i. xs ! i) (filter (\<lambda>i. i < length xs \<and> P (xs ! i)) [0..<length xs])"
    by (rule map_cong) (auto simp: nth_append)
  show ?case using snoc by (simp add: a b)
qed

text \<open>Whatever the order in which the goroutines finish, as long as each of them
  finishes once, the nodes collected are the healthy nodes of the roster.\<close>

lemma collect_active_mset:
  assumes "mset sched = mset [0..<length ns]"
  shows "mset (collect_active E w sched ns) = mset (filter (healthy E w) ns)"
proof -
  let ?Q = "\<lambda>i. i < length ns \<and> healthy E w (ns ! i)"
  have "mset (collect_active E w sched ns)
          = image_mset (\<lambda>i. ns ! i) (filter_mset ?Q (mset sched))"
    by (simp add: collect_active_def)
  also have "\<dots> = image_mset (\<lambda>i. ns ! i) (filter_mset ?Q (mset [0..<length ns]))"
    by (simp only: assms)
  also have "\<dots> = mset (map (\<lambda>i. ns ! i) (filter ?Q [0..<length ns]))"
    by simp
  also have "\<dots> = mset (filter (healthy E w) ns)"
    by (simp only: nth_filter_upt)
  finally show ?thesis .
qed

lemma sdiv2_nonneg: "0 \<le> (k::int) \<Longrightarrow> k sdiv 2 = k div 2"
  by (simp add: signed_divide_int_def sgn_if)

lemma sdiv2_nonpos: "(k::int) \<le> 0 \<Longrightarrow> k sdiv 2 \<le> 0"
  by (auto simp add: signed_divide_int_def sgn_if)

lemma collect_active_Nil: "collect_active E w sched [] = []"
  by (simp add: collect_active_def)

lemma heuristic_policy:
  "clusterExistingHeuristic E w sched csize nodes =
     edge_policy csize nodes
       (collect_active E w sched (case nodes of None \<Rightarrow> [] | Some ns \<Rightarrow> ns))"
proof (cases nodes)
  case None
  then show ?thesis by (simp add: clusterExistingHeuristic_def edge_policy_def)
next
  case (Some ns)
  show ?thesis
  proof (cases "0 \<le> csize")
    case True
    then show ?thesis using Some
      by (auto simp: clusterExistingHeuristic_def edge_policy_def Let_def sdiv2_nonneg
                     collect_active_Nil)
  next
    case False
    then have neg: "csize < 0" by simp
    then have q: "csize sdiv 2 + 1 \<le> 1" using sdiv2_nonpos[of csize] by simp
    have q': "csize div 2 + 1 \<le> 0" using neg by simp
    show ?thesis
    proof (cases "ns = []")
      case True
      then show ?thesis using Some
        by (simp add: clusterExistingHeuristic_def edge_policy_def Let_def collect_active_Nil)
    next
      case False
      then have "1 \<le> int (length ns)" by (cases ns) simp_all
      then show ?thesis using Some False neg q q'
        by (auto simp: clusterExistingHeuristic_def edge_policy_def Let_def)
    qed
  qed
qed

subsection \<open>Joining a running cluster\<close>

lemma Split_comma_not_Nil: "Split_comma s \<noteq> []"
  by (cases s) (auto split: list.splits)

lemma join_running_fresh:
  assumes "strat \<noteq> PreparedStrategy"
    and "NewMemberAdder E active_nodes strat port tsize = Inr ma"
    and "Add E ma name (Split_comma adv) s = Some (Inr initialURLs, s')"
  shows "join_running E active_nodes name adv True port tsize strat s =
           Some (Inr (existing_config
                  (map (\<lambda>u. name @ ''='' @ u) initialURLs
                     @ concat (map NamedPeerURLs active_nodes))
                  adv name), s')"
proof -
  obtain u us where "Split_comma adv = u # us"
    using Split_comma_not_Nil[of adv] by (cases "Split_comma adv") auto
  with assms show ?thesis by (simp add: join_running_def Let_def)
qed

section \<open>The claims\<close>

subsection \<open>C1: the quorum guard\<close>

text \<open>
  Claim C1, as amended. The quorum guard passes iff its listing of the members succeeds and
  \<open>h \<ge> (m + 1) / 2 + 1\<close>, where \<open>h\<close> is the number of listed members that probe alive and
  active and \<open>m\<close> is the number of \<^emph>\<open>started\<close> members of the listing, those with a
  non-empty name (not the size of the listing). Whenever \<open>Add\<close> returns successfully, the
  guard was entered and passed, and \<open>Add\<close> either returned right after it (unstarted slot) or
  issued the members-API add right after it. Whenever the guard that \<open>Add\<close> enters fails,
  \<open>Add\<close> returns the guard's error, which is \<open>QuorumAtRisk\<close> when the listing succeeded, and
  no members-API add call has been issued.
\<close>

theorem quorum_guard_started:
  "(fst (protectQuorum E ma g) = None) =
     (case mapi_List E (mapi ma) (world g) of
        (Inl e, w') \<Rightarrow> False
      | (Inr ms, w') \<Rightarrow> (startedMembers ms + 1) div 2 + 1 \<le> healthyMembers E w' ms)
   \<and> (Add E ma name urls s = Some (Inr res, s') \<longrightarrow>
        (\<exists>g0 s2. guard_entry E ma urls s = Some g0 \<and> protectQuorum E ma g0 = (None, s2) \<and>
                 (s' = s2 \<or> (\<exists>u. Add_call E ma u s2 = (None, s')))))
   \<and> (guard_entry E ma urls s = Some g1 \<and> protectQuorum E ma g1 = (Some err, s3) \<longrightarrow>
        Add E ma name urls s = Some (Inl err, s3) \<and>
        filter is_add (calls s3) = filter is_add (calls s) \<and>
        (mapi_List E (mapi ma) (world g1) = (Inr ms1, w1) \<longrightarrow>
           err = QuorumAtRisk (startedMembers ms1) (healthyMembers E w1 ms1)
                   ((startedMembers ms1 + 1) div 2 + 1)))"
proof (intro conjI impI)
  show "(fst (protectQuorum E ma g) = None) =
     (case mapi_List E (mapi ma) (world g) of
        (Inl e, w') \<Rightarrow> False
      | (Inr ms, w') \<Rightarrow> (startedMembers ms + 1) div 2 + 1 \<le> healthyMembers E w' ms)"
    by (rule guard_passes_iff)
next
  assume "Add E ma name urls s = Some (Inr res, s')"
  then show "\<exists>g0 s2. guard_entry E ma urls s = Some g0 \<and>
                 protectQuorum E ma g0 = (None, s2) \<and>
                 (s' = s2 \<or> (\<exists>u. Add_call E ma u s2 = (None, s')))"
    by (rule Add_success_guard)
next
  assume a: "guard_entry E ma urls s = Some g1 \<and> protectQuorum E ma g1 = (Some err, s3)"
  then show "Add E ma name urls s = Some (Inl err, s3)"
    by (simp add: Add_guard_fails)
next
  assume a: "guard_entry E ma urls s = Some g1 \<and> protectQuorum E ma g1 = (Some err, s3)"
  then have a1: "guard_entry E ma urls s = Some g1"
    and a2: "protectQuorum E ma g1 = (Some err, s3)" by simp_all
  show "filter is_add (calls s3) = filter is_add (calls s)"
    using guard_entry_no_add[OF a1] protectQuorum_calls[OF a2] by simp
next
  assume a: "guard_entry E ma urls s = Some g1 \<and> protectQuorum E ma g1 = (Some err, s3)"
  assume l: "mapi_List E (mapi ma) (world g1) = (Inr ms1, w1)"
  from a have a2: "protectQuorum E ma g1 = (Some err, s3)" by simp
  show "err = QuorumAtRisk (startedMembers ms1) (healthyMembers E w1 ms1)
                   ((startedMembers ms1 + 1) div 2 + 1)"
    by (rule guard_error[OF l a2])
qed

text \<open>Witness: with \<open>a\<close> and \<open>b\<close> up and a slot reserved for the caller, \<open>Add\<close> succeeds after
  a passing guard; with only \<open>a\<close> up out of three started members the guard fails with
  \<open>QuorumAtRisk 3 1 3\<close> and no add is issued.\<close>

theorem quorum_guard_started_witness:
  "Add (net_ab []) (adder AddStrategy) ''n'' [''http://n:2380'']
       (start [member_a, member_b, slot_n])
     = Some (Inr [''http://n:2380''],
             \<lparr>world = [member_a, member_b, slot_n], calls = [ListCall, ListCall]\<rparr>)
   \<and> (\<exists>g0 s2. guard_entry (net_ab []) (adder AddStrategy) [''http://n:2380'']
                 (start [member_a, member_b, slot_n]) = Some g0 \<and>
               protectQuorum (net_ab []) (adder AddStrategy) g0 = (None, s2))
   \<and> guard_entry (net_a []) (adder AddStrategy) [''http://n:2380'']
         (start [member_a, member_b, member_c])
       = Some \<lparr>world = [member_a, member_b, member_c], calls = [ListCall]\<rparr>
   \<and> protectQuorum (net_a []) (adder AddStrategy)
         \<lparr>world = [member_a, member_b, member_c], calls = [ListCall]\<rparr>
       = (Some (QuorumAtRisk 3 1 3),
          \<lparr>world = [member_a, member_b, member_c], calls = [ListCall, ListCall]\<rparr>)
   \<and> Add (net_a []) (adder AddStrategy) ''n'' [''http://n:2380'']
          (start [member_a, member_b, member_c])
       = Some (Inl (QuorumAtRisk 3 1 3),
               \<lparr>world = [member_a, member_b, member_c], calls = [ListCall, ListCall]\<rparr>)"
proof -
  have h1: "Add (net_ab []) (adder AddStrategy) ''n'' [''http://n:2380'']
       (start [member_a, member_b, slot_n])
     = Some (Inr [''http://n:2380''],
             \<lparr>world = [member_a, member_b, slot_n], calls = [ListCall, ListCall]\<rparr>)"
    by (simp add: sim_defs adder_defs)
  have h2: "guard_entry (net_a []) (adder AddStrategy) [''http://n:2380'']
         (start [member_a, member_b, member_c])
       = Some \<lparr>world = [member_a, member_b, member_c], calls = [ListCall]\<rparr>
     \<and> protectQuorum (net_a []) (adder AddStrategy)
         \<lparr>world = [member_a, member_b, member_c], calls = [ListCall]\<rparr>
       = (Some (QuorumAtRisk 3 1 3),
          \<lparr>world = [member_a, member_b, member_c], calls = [ListCall, ListCall]\<rparr>)"
    by (simp add: guard_entry_def sim_defs adder_defs)
  note c2 = quorum_guard_started[THEN conjunct2, THEN conjunct1, THEN mp, OF h1]
  note c3 = quorum_guard_started[THEN conjunct2, THEN conjunct2, THEN mp, OF h2]
  from c2 have "\<exists>g0 s2. guard_entry (net_ab []) (adder AddStrategy) [''http://n:2380'']
                 (start [member_a, member_b, slot_n]) = Some g0 \<and>
               protectQuorum (net_ab []) (adder AddStrategy) g0 = (None, s2)"
    by blast
  with h1 h2 c3 show ?thesis by simp
qed

text \<open>Counterexample to C1 as stated: three members are listed, two of them healthy and the
  third an unstarted slot. With \<open>m\<close> the size of the listing the bound is \<open>(3 + 1) / 2 + 1 = 3\<close>
  and the guard would fail; the code counts the two started members, the bound is 2, and the
  guard passes.\<close>

theorem quorum_guard_listing_size_counterexample:
  "mapi_List (net_ab []) (mapi (adder AddStrategy))
      (world (start [member_a, member_b, slot_n]))
     = (Inr [member_a, member_b, slot_n], [member_a, member_b, slot_n])
   \<and> fst (protectQuorum (net_ab []) (adder AddStrategy) (start [member_a, member_b, slot_n]))
       = None
   \<and> \<not> ((length [member_a, member_b, slot_n] + 1) div 2 + 1
          \<le> healthyMembers (net_ab []) [member_a, member_b, slot_n]
               [member_a, member_b, slot_n])"
  by (simp add: sim_defs adder_defs)

subsection \<open>C2: the replace strategy without a dead member\<close>

text \<open>
  Claim C2 says that under the replace strategy, when no dead member is found and the
  membership is below \<open>targetSize\<close>, \<open>Add\<close> proceeds to the quorum guard and the members-API
  add. The code does not: \<^verbatim>\<open>removeDeadMember\<close> reports a missing dead member as an error, and
  \<open>Add\<close> returns that error before it looks at \<open>targetSize\<close>. Here two healthy members
  \<open>a\<close> and \<open>b\<close> form a cluster of target size 3: \<open>Add\<close> returns \<open>NoDeadMember\<close> after the
  listing, without guard and without add. With target size 2 the cluster is full, and the
  error is \<open>NoDeadMember\<close> again, not \<open>ClusterFullNoDead\<close>.
\<close>

theorem replace_fails_without_dead_member:
  "Add (net_ab []) (adder ReplaceStrategy) ''n'' [''http://n:2380'']
       (start [member_a, member_b])
     = Some (Inl NoDeadMember, \<lparr>world = [member_a, member_b], calls = [ListCall]\<rparr>)
   \<and> Add (net_ab []) ((adder ReplaceStrategy)\<lparr>targetSize := 2\<rparr>) ''n'' [''http://n:2380'']
       (start [member_a, member_b])
     = Some (Inl NoDeadMember, \<lparr>world = [member_a, member_b], calls = [ListCall]\<rparr>)"
  by (simp add: sim_defs adder_defs)

text \<open>The same in general: under replace, a listing without unstarted slot and without dead
  member ends \<open>Add\<close> with \<open>NoDeadMember\<close>, whatever the target size.\<close>

lemma replace_no_dead_member:
  assumes "strategy ma = ReplaceStrategy"
    and "List_call E ma s = (Inr ms, s1)"
    and "findUnstartedMember ms urls = None"
    and "searchForDead E (world s1) (clientPort ma) ms = None"
  shows "Add E ma name urls s = Some (Inl NoDeadMember, s1)"
  using assms by (simp add: Add_def strategy_switch_def removeDeadMember_none_found)

subsection \<open>C3: the existence heuristic\<close>

text \<open>
  Claim C3. For every target size, roster and order of the probes, the existence heuristic
  returns what the edge policy of the specification prescribes for the list of nodes it
  found healthy; and when every probe finishes once, that list holds exactly the alive and
  active nodes of the roster (as a multiset: the order is that of the probes).
\<close>

theorem heuristic_edge_policy:
  "clusterExistingHeuristic E w sched csize nodes =
     edge_policy csize nodes
       (collect_active E w sched (case nodes of None \<Rightarrow> [] | Some ns \<Rightarrow> ns))
   \<and> (mset sched = mset [0..<length ns] \<longrightarrow>
        mset (collect_active E w sched ns) = mset (filter (healthy E w) ns))"
proof (intro conjI impI)
  show "clusterExistingHeuristic E w sched csize nodes =
     edge_policy csize nodes
       (collect_active E w sched (case nodes of None \<Rightarrow> [] | Some ns \<Rightarrow> ns))"
    by (rule heuristic_policy)
next
  assume "mset sched = mset [0..<length ns]"
  then show "mset (collect_active E w sched ns) = mset (filter (healthy E w) ns)"
    by (rule collect_active_mset)
qed

text \<open>Witness: two healthy nodes out of a target of three, the second probe finishing
  first.\<close>

theorem heuristic_edge_policy_witness:
  "mset [1, 0] = mset [0..<length [node_a, node_b]]
   \<and> mset (collect_active (net_ab []) [] [1, 0] [node_a, node_b])
       = mset (filter (healthy (net_ab []) []) [node_a, node_b])
   \<and> clusterExistingHeuristic (net_ab []) [] [1, 0] 3 (Some [node_a, node_b])
       = Some [node_b, node_a]"
proof -
  have h: "mset [1, 0] = mset [0..<length [node_a, node_b]]"
    by (simp add: upt_rec)
  have e: "edge_policy 3 (Some [node_a, node_b])
             (collect_active (net_ab []) [] [1, 0] [node_a, node_b])
             = Some [node_b, node_a]"
    by (simp add: edge_policy_def collect_active_def healthy_def alive_def active_def sim_defs)
  show ?thesis
    using h e heuristic_edge_policy[of "net_ab []" "[]" "[1, 0]" 3 "Some [node_a, node_b]"
                "[node_a, node_b]"]
    by simp
qed

subsection \<open>C4: the shape of the emitted configuration\<close>

text \<open>
  Claim C4 says that an emitted configuration with state \<open>existing\<close> has an initial cluster
  that is empty or begins with a URL named after the joining node. The code breaks this when
  the members API lists an unstarted member without peer URLs: \<open>findUnstartedMember\<close> takes it
  for the caller's slot, \<open>Add\<close> returns its empty URL list, and \<open>Join\<close> emits the named URLs
  of the active nodes alone. Here node \<open>n\<close> joins the running cluster of \<open>a\<close> and \<open>b\<close>: the
  initial cluster begins with \<open>a=http://a:2380\<close>.
\<close>

theorem initial_cluster_without_own_url:
  "Join (net_ab roster_ab) [0, 1] ''http://disc/t'' ''n'' ''http://n:2380'' True 2379 3
        AddStrategy (start [member_a, member_b, slot_empty])
     = Some (Inr \<lparr>InitialCluster = [''a=http://a:2380'', ''b=http://b:2380''],
                  InitialClusterState = ''existing'',
                  AdvertisePeerURLs = ''http://n:2380'',
                  Discovery = '''',
                  NodeName = ''n''\<rparr>,
             \<lparr>world = [member_a, member_b, slot_empty], calls = [ListCall, ListCall]\<rparr>)"
  by (simp add: join_defs sim_defs adder_defs Let_def)

subsection \<open>C5: the dormant cluster\<close>

text \<open>
  Claim C5. When the existence heuristic returns a non-nil empty list of active nodes, \<open>Join\<close>
  fails with \<open>ClusterDown\<close> and emits no configuration if \<open>fresh\<close> is true, and otherwise
  emits the configuration with state \<open>existing\<close>, the advertised URLs and the name, an empty
  initial cluster and an empty discovery URL. No \<^verbatim>\<open>List\<close>, \<^verbatim>\<open>Add\<close> or \<^verbatim>\<open>Remove\<close> call is issued.
\<close>

theorem dormant_dispatch:
  assumes "discovery_Value E (world s) discoveryURL ''/'' = Inr res"
    and "roster E port (Nodes res) = Inr nodes"
    and "target_size E (world s) discoveryURL clusterSize = Inr tsize"
    and "clusterExistingHeuristic E (world s) sched tsize (Some nodes) = Some []"
  shows "Join E sched discoveryURL name initialAdvertisePeerURLs fresh port clusterSize strat s =
           Some (if fresh then Inl ClusterDown
                 else Inr \<lparr>InitialCluster = [], InitialClusterState = ''existing'',
                           AdvertisePeerURLs = initialAdvertisePeerURLs,
                           Discovery = '''', NodeName = name\<rparr>, s)"
  using assms by (simp add: Join_def existing_config_def)

text \<open>Witness: the roster holds \<open>a\<close>, \<open>b\<close> and \<open>c\<close>, the size read from the discovery
  service is 3, and no node answers.\<close>

theorem dormant_dispatch_witness:
  "Join (net_down roster_abc) [0, 1, 2] ''http://disc/t'' ''n'' ''http://n:2380'' True 2379 (- 1)
        ReplaceStrategy (start [member_a, member_b, member_c])
     = Some (Inl ClusterDown, start [member_a, member_b, member_c])
   \<and> Join (net_down roster_abc) [0, 1, 2] ''http://disc/t'' ''n'' ''http://n:2380'' False 2379
        (- 1) ReplaceStrategy (start [member_a, member_b, member_c])
     = Some (Inr \<lparr>InitialCluster = [], InitialClusterState = ''existing'',
                  AdvertisePeerURLs = ''http://n:2380'', Discovery = '''', NodeName = ''n''\<rparr>,
             start [member_a, member_b, member_c])"
proof -
  let ?E = "net_down roster_abc" and ?s = "start [member_a, member_b, member_c]"
  let ?nodes = "[node_a, node_b,
                 \<lparr>ID = '''', Name = ''c'', PeerURLs = [''http://c:2380''],
                  ClientURLs = [''http://c:2380:client'']\<rparr>]"
  have d: "discovery_Value ?E (world ?s) ''http://disc/t'' ''/'' = Inr (DNode ''/'' None roster_abc)"
    by (simp add: sim_defs)
  have r: "roster ?E 2379 (Nodes (DNode ''/'' None roster_abc)) = Inr ?nodes"
    by (simp add: sim_defs)
  have t: "target_size ?E (world ?s) ''http://disc/t'' (- 1) = Inr 3"
    by (simp add: target_size_def sim_defs)
  have c: "clusterExistingHeuristic ?E (world ?s) [0, 1, 2] 3 (Some ?nodes) = Some []"
    by (simp add: clusterExistingHeuristic_def collect_active_def healthy_def alive_def sim_defs)
  show ?thesis
    using dormant_dispatch[OF d r t c, of "''n''" "''http://n:2380''" True ReplaceStrategy]
      dormant_dispatch[OF d r t c, of "''n''" "''http://n:2380''" False ReplaceStrategy]
    by simp
qed

subsection \<open>C6: the prepared strategy\<close>

text \<open>
  Claim C6, as amended. Under the prepared strategy \<open>Join\<close> always returns and issues no
  members-API remove call and no members-API add call: it never builds an adder, so the
  recorded calls (\<^verbatim>\<open>List\<close>, \<^verbatim>\<open>Add\<close>, \<^verbatim>\<open>Remove\<close>) are the same after \<open>Join\<close> as before. The
  \<^verbatim>\<open>Leader\<close> probes of the health checks are still sent. \<open>Add\<close> itself, when invoked with the
  prepared strategy, always returns and issues no members-API remove call; nothing is
  claimed about its add calls.
\<close>

theorem prepared_no_mutation:
  "(\<exists>r. Join E sched discoveryURL name adv fresh port clusterSize PreparedStrategy s
           = Some (r, s))
   \<and> (strategy ma = PreparedStrategy \<longrightarrow>
        (\<exists>r s'. Add E ma name urls s = Some (r, s') \<and>
                 filter is_remove (calls s') = filter is_remove (calls s)))"
proof (intro conjI impI)
  show "\<exists>r. Join E sched discoveryURL name adv fresh port clusterSize PreparedStrategy s
           = Some (r, s)"
    by (rule Join_prepared)
next
  assume "strategy ma = PreparedStrategy"
  then show "\<exists>r s'. Add E ma name urls s = Some (r, s') \<and>
                 filter is_remove (calls s') = filter is_remove (calls s)"
    by (rule Add_prepared)
qed

text \<open>Witness: the adder with the prepared strategy on the cluster of \<open>a\<close> and \<open>b\<close>.\<close>

theorem prepared_no_mutation_witness:
  "strategy (adder PreparedStrategy) = PreparedStrategy
   \<and> (\<exists>r s'. Add (net_ab []) (adder PreparedStrategy) ''n'' [''http://n:2380'']
                 (start [member_a, member_b]) = Some (r, s') \<and>
              filter is_remove (calls s') = [])"
proof -
  have h: "strategy (adder PreparedStrategy) = PreparedStrategy"
    by (simp add: adder_def)
  from prepared_no_mutation[THEN conjunct2, THEN mp, OF h,
         of "net_ab []" "''n''" "[''http://n:2380'']" "start [member_a, member_b]"]
  show ?thesis using h by (simp add: start_def)
qed

text \<open>Counterexample to C6 as stated: \<open>Add\<close> invoked with the prepared strategy on the
  healthy cluster of \<open>a\<close> and \<open>b\<close>, where no slot is reserved, passes the guard and issues
  the members-API add.\<close>

theorem prepared_add_counterexample:
  "strategy (adder PreparedStrategy) = PreparedStrategy
   \<and> Add (net_ab []) (adder PreparedStrategy) ''n'' [''http://n:2380'']
         (start [member_a, member_b])
       = Some (Inr [''http://n:2380''],
               \<lparr>world = [member_a, member_b, added_n],
                calls = [ListCall, ListCall, AddCall ''http://n:2380'']\<rparr>)"
  by (simp add: sim_defs adder_defs)

subsection \<open>C7: the prune strategy\<close>

text \<open>
  Claim C7 says that under prune two consecutive remove calls target distinct member IDs.
  The loop of the code calls \<^verbatim>\<open>removeDeadMember\<close> on the member list fetched before the loop,
  so the member it removed is still the first dead member of that list in the next round.
  Here \<open>c\<close> (ID 3) is dead and \<open>a\<close>, \<open>b\<close> are healthy: the ID 3 is removed, removed once more
  (an error, which ends the loop), and then \<open>n\<close> is added.
\<close>

theorem prune_repeats_remove:
  "Add (net_ab []) (adder PruneStrategy) ''n'' [''http://n:2380'']
       (start [member_c, member_a, member_b])
     = Some (Inr [''http://n:2380''],
         \<lparr>world = [member_a, member_b, added_n],
          calls = [ListCall, RemoveCall ''3'', RemoveCall ''3'', ListCall,
                   AddCall ''http://n:2380'']\<rparr>)"
  apply (simp add: Add_def List_call_def sim_defs strategy_switch_def PruneStrategy_def
           ReplaceStrategy_def)
  apply (subst prune_loop.simps)
  apply (simp add: sim_defs adder_defs)
  apply (subst prune_loop.simps)
  apply (simp add: sim_defs adder_defs)
  done

subsection \<open>C8: recycling an unstarted slot\<close>

text \<open>
  Claim C8, as amended. When the listed membership contains an unstarted member (empty name)
  whose peer URLs are among the caller's, \<open>Add\<close> returns, skips the strategy switch and
  issues exactly two calls, its listing and the listing of the quorum guard: no add, no
  remove. It recycles the \<^emph>\<open>first\<close> such member \<open>u\<close> of the listing, and returns the peer URLs
  of \<open>u\<close> when the guard passes and the guard's error otherwise.
\<close>

theorem recycle_unstarted:
  assumes "List_call E ma s = (Inr ms, s1)"
    and "m \<in> set ms" and "Name m = ''''" and "set (PeerURLs m) \<subseteq> set urls"
  shows "\<exists>u pre post verdict s2.
           findUnstartedMember ms urls = Some u \<and>
           ms = pre @ u # post \<and> findUnstartedMember pre urls = None \<and>
           Name u = '''' \<and> set (PeerURLs u) \<subseteq> set urls \<and>
           protectQuorum E ma s1 = (verdict, s2) \<and>
           Add E ma name urls s =
             Some (case verdict of None \<Rightarrow> Inr (PeerURLs u) | Some err \<Rightarrow> Inl err, s2) \<and>
           calls s2 = calls s @ [ListCall, ListCall]"
proof -
  from findUnstartedMember_exists[OF assms(2-4)]
  obtain u where u: "findUnstartedMember ms urls = Some u" by blast
  from findUnstartedMember_first[OF u] obtain pre post
    where first: "ms = pre @ u # post" "findUnstartedMember pre urls = None" by blast
  obtain verdict s2 where g: "protectQuorum E ma s1 = (verdict, s2)"
    by (cases "protectQuorum E ma s1")
  have "Add E ma name urls s =
          Some (case verdict of None \<Rightarrow> Inr (PeerURLs u) | Some err \<Rightarrow> Inl err, s2)"
    using assms(1) u g by (cases verdict) (simp_all add: Add_def)
  moreover have "calls s2 = calls s @ [ListCall, ListCall]"
    using List_call_calls[OF assms(1)] protectQuorum_calls[OF g] by simp
  ultimately show ?thesis using u g first findUnstartedMember_Some[OF u] by blast
qed

text \<open>Witness: a second run of \<open>n\<close> after a run that registered \<open>http://n:2380\<close>, under the
  prune strategy.\<close>

theorem recycle_unstarted_witness:
  "List_call (net_ab []) (adder PruneStrategy) (start [member_a, member_b, added_n])
     = (Inr [member_a, member_b, added_n],
        \<lparr>world = [member_a, member_b, added_n], calls = [ListCall]\<rparr>)
   \<and> added_n \<in> set [member_a, member_b, added_n] \<and> Name added_n = ''''
   \<and> set (PeerURLs added_n) \<subseteq> set [''http://n:2380'']
   \<and> (\<exists>s2. Add (net_ab []) (adder PruneStrategy) ''n'' [''http://n:2380'']
              (start [member_a, member_b, added_n])
            = Some (Inr [''http://n:2380''], s2)
          \<and> calls s2 = [ListCall, ListCall])"
proof -
  have l: "List_call (net_ab []) (adder PruneStrategy) (start [member_a, member_b, added_n])
     = (Inr [member_a, member_b, added_n],
        \<lparr>world = [member_a, member_b, added_n], calls = [ListCall]\<rparr>)"
    by (simp add: List_call_def sim_defs)
  have m: "added_n \<in> set [member_a, member_b, added_n]" by simp
  have n: "Name added_n = ''''" by (simp add: added_n_def)
  have p: "set (PeerURLs added_n) \<subseteq> set [''http://n:2380'']" by (simp add: added_n_def)
  have g: "protectQuorum (net_ab []) (adder PruneStrategy)
             \<lparr>world = [member_a, member_b, added_n], calls = [ListCall]\<rparr>
           = (None, \<lparr>world = [member_a, member_b, added_n], calls = [ListCall, ListCall]\<rparr>)"
    by (simp add: sim_defs adder_defs)
  have f: "findUnstartedMember [member_a, member_b, added_n] [''http://n:2380''] = Some added_n"
    by (simp add: sim_defs)
  from recycle_unstarted[OF l m n p, of "''n''"] g f
  have "\<exists>s2. Add (net_ab []) (adder PruneStrategy) ''n'' [''http://n:2380'']
              (start [member_a, member_b, added_n])
            = Some (Inr [''http://n:2380''], s2)
          \<and> calls s2 = [ListCall, ListCall]"
    by (auto simp: added_n_def start_def)
  with l m n p show ?thesis by blast
qed

text \<open>Counterexample to C8 as stated. The slot \<open>slot_n\<close> with the caller's URL is listed
  after an unstarted member without peer URLs: \<open>Add\<close> recycles the earlier one and returns the
  empty list, not the URL of \<open>slot_n\<close>. And with \<open>slot_n\<close> the only slot but only \<open>a\<close> up out
  of three started members, the guard fails and \<open>Add\<close> returns \<open>QuorumAtRisk 3 1 3\<close>, not the
  URL of \<open>slot_n\<close>. Neither run issues an add or a remove.\<close>

theorem recycle_other_member_counterexample:
  "slot_n \<in> set [member_a, member_b, slot_empty, slot_n]
   \<and> Name slot_n = ''''
   \<and> set (PeerURLs slot_n) \<subseteq> set [''http://n:2380'']
   \<and> PeerURLs slot_n \<noteq> []
   \<and> Add (net_ab []) (adder AddStrategy) ''n'' [''http://n:2380'']
         (start [member_a, member_b, slot_empty, slot_n])
       = Some (Inr [],
               \<lparr>world = [member_a, member_b, slot_empty, slot_n],
                calls = [ListCall, ListCall]\<rparr>)
   \<and> slot_n \<in> set [member_a, member_b, member_c, slot_n]
   \<and> Add (net_a []) (adder AddStrategy) ''n'' [''http://n:2380'']
         (start [member_a, member_b, member_c, slot_n])
       = Some (Inl (QuorumAtRisk 3 1 3),
               \<lparr>world = [member_a, member_b, member_c, slot_n],
                calls = [ListCall, ListCall]\<rparr>)"
  by (simp add: sim_defs adder_defs)

subsection \<open>C9: discovery entries without a value\<close>

text \<open>
  Claim C9 says that a child of the discovery response whose value is missing is logged and
  skipped and never makes \<open>Join\<close> crash. The code logs it and then dereferences the nil
  value: \<open>Join\<close> panics. Here the second child of the response has no value.
\<close>

theorem nil_value_panics:
  "Join (net_ab roster_nil) [0, 1] ''http://disc/t'' ''n'' ''http://n:2380'' True 2379 3
        AddStrategy (start [member_a, member_b])
     = Some (Inl (Panic ''nil pointer dereference''), start [member_a, member_b])"
  by (simp add: Join_def sim_defs)

text \<open>Entries whose value does not parse are skipped, as the claim says.\<close>

lemma roster_skips_invalid:
  "Value nn = Some v \<Longrightarrow> NewDiscoveryNode E v port = Inl err \<Longrightarrow>
     roster E port (nn # rest) = roster E port rest"
  by simp

subsection \<open>C10: an unstarted member without peer URLs\<close>

text \<open>
  Claim C10, as amended. When the first unstarted member of the listing whose peer URLs are
  among the caller's has no peer URL at all (so when such a member \<open>z\<close> comes before every
  other matching slot) and the quorum guard passes, \<open>Add\<close> recycles it and returns the empty
  list; \<open>Join\<close>, on a running cluster with \<open>fresh\<close> set and a strategy other than prepared,
  then emits an \<open>existing\<close> configuration whose initial cluster is exactly the list of the
  active nodes' named URLs, with no URL of the joining node put in front.
\<close>

theorem empty_slot_recycled:
  assumes "List_call E ma s = (Inr (pre @ z # post), s1)"
    and "findUnstartedMember pre urls = None"
    and "Name z = ''''" and "PeerURLs z = []"
    and "protectQuorum E ma s1 = (None, s2)"
  shows "Add E ma name urls s = Some (Inr [], s2)
    \<and> (discovery_Value E (world s) discoveryURL ''/'' = Inr res
       \<and> roster E port (Nodes res) = Inr nodes
       \<and> target_size E (world s) discoveryURL clusterSize = Inr tsize
       \<and> clusterExistingHeuristic E (world s) sched tsize (Some nodes) = Some active_nodes
       \<and> active_nodes \<noteq> [] \<and> strat \<noteq> PreparedStrategy
       \<and> NewMemberAdder E active_nodes strat port tsize = Inr ma
       \<and> urls = Split_comma adv
       \<longrightarrow> Join E sched discoveryURL name adv True port clusterSize strat s =
             Some (Inr \<lparr>InitialCluster = concat (map NamedPeerURLs active_nodes),
                        InitialClusterState = ''existing'',
                        AdvertisePeerURLs = adv,
                        Discovery = '''',
                        NodeName = name\<rparr>, s2))"
proof (intro conjI impI)
  have f: "findUnstartedMember (pre @ z # post) urls = Some z"
    using assms(2-4) by (simp add: findUnstartedMember_append)
  show a: "Add E ma name urls s = Some (Inr [], s2)"
    using assms(1,4,5) f by (simp add: Add_def)
  assume j: "discovery_Value E (world s) discoveryURL ''/'' = Inr res
       \<and> roster E port (Nodes res) = Inr nodes
       \<and> target_size E (world s) discoveryURL clusterSize = Inr tsize
       \<and> clusterExistingHeuristic E (world s) sched tsize (Some nodes) = Some active_nodes
       \<and> active_nodes \<noteq> [] \<and> strat \<noteq> PreparedStrategy
       \<and> NewMemberAdder E active_nodes strat port tsize = Inr ma
       \<and> urls = Split_comma adv"
  then have r: "join_running E active_nodes name adv True port tsize strat s =
           Some (Inr (existing_config
                  (map (\<lambda>u. name @ ''='' @ u) [] @ concat (map NamedPeerURLs active_nodes))
                  adv name), s2)"
    using a by (intro join_running_fresh) simp_all
  from j r show "Join E sched discoveryURL name adv True port clusterSize strat s =
             Some (Inr \<lparr>InitialCluster = concat (map NamedPeerURLs active_nodes),
                        InitialClusterState = ''existing'',
                        AdvertisePeerURLs = adv,
                        Discovery = '''',
                        NodeName = name\<rparr>, s2)"
    by (simp add: Join_def existing_config_def)
qed

text \<open>Witness: node \<open>n\<close> joins the running cluster of \<open>a\<close> and \<open>b\<close>, whose membership ends
  with an unstarted member without peer URLs.\<close>

theorem empty_slot_recycled_witness:
  "Add (net_ab roster_ab) joined_adder ''n'' [''http://n:2380'']
       (start [member_a, member_b, slot_empty])
     = Some (Inr [], \<lparr>world = [member_a, member_b, slot_empty], calls = [ListCall, ListCall]\<rparr>)
   \<and> Join (net_ab roster_ab) [0, 1] ''http://disc/t'' ''n'' ''http://n:2380'' True 2379 3
          AddStrategy (start [member_a, member_b, slot_empty])
     = Some (Inr \<lparr>InitialCluster = concat (map NamedPeerURLs [node_a, node_b]),
                  InitialClusterState = ''existing'',
                  AdvertisePeerURLs = ''http://n:2380'',
                  Discovery = '''',
                  NodeName = ''n''\<rparr>,
             \<lparr>world = [member_a, member_b, slot_empty], calls = [ListCall, ListCall]\<rparr>)"
proof -
  let ?E = "net_ab roster_ab" and ?s = "start [member_a, member_b, slot_empty]"
  let ?s1 = "\<lparr>world = [member_a, member_b, slot_empty], calls = [ListCall]\<rparr>"
  let ?s2 = "\<lparr>world = [member_a, member_b, slot_empty], calls = [ListCall, ListCall]\<rparr>"
  have l: "List_call ?E joined_adder ?s = (Inr ([member_a, member_b] @ slot_empty # []), ?s1)"
    by (simp add: List_call_def sim_defs)
  have f: "findUnstartedMember [member_a, member_b] [''http://n:2380''] = None"
    by (simp add: sim_defs)
  have n: "Name slot_empty = ''''" and p: "PeerURLs slot_empty = []"
    by (simp_all add: slot_empty_def)
  have g: "protectQuorum ?E joined_adder ?s1 = (None, ?s2)"
    by (simp add: sim_defs adder_defs)
  have j: "discovery_Value ?E (world ?s) ''http://disc/t'' ''/'' = Inr (DNode ''/'' None roster_ab)
       \<and> roster ?E 2379 (Nodes (DNode ''/'' None roster_ab)) = Inr [node_a, node_b]
       \<and> target_size ?E (world ?s) ''http://disc/t'' 3 = Inr 3
       \<and> clusterExistingHeuristic ?E (world ?s) [0, 1] 3 (Some [node_a, node_b])
           = Some [node_a, node_b]
       \<and> [node_a, node_b] \<noteq> [] \<and> AddStrategy \<noteq> PreparedStrategy
       \<and> NewMemberAdder ?E [node_a, node_b] AddStrategy 2379 3 = Inr joined_adder
       \<and> [''http://n:2380''] = Split_comma ''http://n:2380''"
    by (simp add: join_defs sim_defs healthy_def alive_def active_def
          AddStrategy_def PreparedStrategy_def)
  note t = empty_slot_recycled[OF l f n p g, of "''n''" "''http://disc/t''" _ 2379 _ 3 3 "[0, 1]"
             _ AddStrategy "''http://n:2380''"]
  from t[THEN conjunct1] t[THEN conjunct2, THEN mp, OF j] show ?thesis by simp
qed

text \<open>Counterexample to C10 as stated: the membership contains an unstarted member without
  peer URLs, but a slot with the caller's URL comes first. \<open>Add\<close> returns that URL, not the
  empty list, and the initial cluster begins with the joining node's own named URL.\<close>

theorem empty_slot_not_first_counterexample:
  "slot_empty \<in> set [member_a, member_b, slot_n, slot_empty]
   \<and> Name slot_empty = '''' \<and> PeerURLs slot_empty = []
   \<and> Add (net_ab roster_ab) joined_adder ''n'' [''http://n:2380'']
         (start [member_a, member_b, slot_n, slot_empty])
       = Some (Inr [''http://n:2380''],
               \<lparr>world = [member_a, member_b, slot_n, slot_empty],
                calls = [ListCall, ListCall]\<rparr>)
   \<and> Join (net_ab roster_ab) [0, 1] ''http://disc/t'' ''n'' ''http://n:2380'' True 2379 3
          AddStrategy (start [member_a, member_b, slot_n, slot_empty])
       = Some (Inr \<lparr>InitialCluster =
                      [''n=http://n:2380'', ''a=http://a:2380'', ''b=http://b:2380''],
                    InitialClusterState = ''existing'',
                    AdvertisePeerURLs = ''http://n:2380'',
                    Discovery = '''',
                    NodeName = ''n''\<rparr>,
               \<lparr>world = [member_a, member_b, slot_n, slot_empty],
                calls = [ListCall, ListCall]\<rparr>)"
  by (simp add: join_defs sim_defs adder_defs Let_def)

end
